theory Spec2Isabelle
  imports Complex_Main "HOL-Library.Word" "HOL-Library.Signed_Division"
begin

section \<open>Data model of the camera\<close>

text \<open>
  A \<open>Camera\<close> of Splash owns a list of calibration points, a pose, and weak pointers to
  the objects linked to it. Values of type \<open>double\<close> and \<open>float\<close> are modelled by real
  numbers: the development covers the structure of the computations (which points are
  used, which arguments reach the library, which cells are written), not rounding.
  Vectors of GLM are tuples of reals. The message stream of \<open>Log::get()\<close> is a field of
  the state.
\<close>

type_synonym dvec2 = "real \<times> real"
type_synonym dvec3 = "real \<times> real \<times> real"
type_synonym dvec4 = "real \<times> real \<times> real \<times> real"

record CalibrationPoint =
  world :: dvec3
  screen :: dvec2
  isSet :: bool

datatype priority = DEBUGGING | MESSAGE | WARNING

text \<open>A line of the log: the priority streamed first (if any), the text, and the numbers
  streamed after the text.\<close>

type_synonym log_line = "priority option \<times> string \<times> real list"

text \<open>What the C++ does where it has no defined result.\<close>

datatype fault = DivisionByZero | NullDereference | OutOfBounds

record 'o Camera =
  calibrationPoints :: "CalibrationPoint list"
  selectedCalibrationPoint :: int
  calibrationCalledOnce :: bool
  updatedParams :: bool
  objects :: "'o option list"
  eye :: dvec3
  target :: dvec3
  up :: dvec3
  fov :: real
  cx :: real
  cy :: real
  near :: real
  far :: real
  width :: int
  height :: int
  logged :: "log_line list"

section \<open>Selecting the next calibration point\<close>

text \<open>
  The handler of the attribute \<open>selectNextCalibrationPoint\<close>:
  \<^verbatim>\<open>_selectedCalibrationPoint = (_selectedCalibrationPoint + 1) % _calibrationPoints.size();\<close>
  The left operand is an \<open>int\<close>, the right one a \<open>size_t\<close>: the sum is converted to an
  unsigned 64-bit value before the remainder is taken. A remainder by zero has no defined
  result.
\<close>

definition to_size_t :: "int \<Rightarrow> nat" where
  "to_size_t i = nat (i mod 2 ^ 64)"

definition selectNextCalibrationPoint :: "'o Camera \<Rightarrow> fault + (bool \<times> 'o Camera)" where
  "selectNextCalibrationPoint c =
     (let n = length (calibrationPoints c) in
      if n = 0 then Inl DivisionByZero
      else Inr (True,
        c\<lparr>selectedCalibrationPoint := int (to_size_t (selectedCalibrationPoint c + 1) mod n)\<rparr>))"

text \<open>
  The selection is left by \<open>Camera::deselectCalibrationPoint\<close>, which stores \<open>-1\<close>, and
  moved back by the handler of the attribute \<open>selectPreviousCalibrationPoint\<close>:
  \<^verbatim>\<open>if (_selectedCalibrationPoint == 0) _selectedCalibrationPoint = _calibrationPoints.size() - 1;\<close>
  \<^verbatim>\<open>else _selectedCalibrationPoint--;\<close>
  The handler does not look at the sign of the selection: from \<open>-1\<close> it goes to \<open>-2\<close>.
\<close>

definition deselectCalibrationPoint :: "'o Camera \<Rightarrow> 'o Camera" where
  "deselectCalibrationPoint c = c\<lparr>selectedCalibrationPoint := - 1\<rparr>"

definition selectPreviousCalibrationPoint :: "'o Camera \<Rightarrow> bool \<times> 'o Camera" where
  "selectPreviousCalibrationPoint c =
     (True,
      if selectedCalibrationPoint c = 0
      then c\<lparr>selectedCalibrationPoint := int (length (calibrationPoints c)) - 1\<rparr>
      else c\<lparr>selectedCalibrationPoint := selectedCalibrationPoint c - 1\<rparr>)"

section \<open>The GLM library\<close>

text \<open>
  The camera calls the matrix functions of GLM, a library that is not part of the
  repository. They are parameters of the model: a record of the functions the camera
  uses, over a type \<open>'m\<close> of matrices. Every theorem that takes such a record holds
  for whatever the library computes.
\<close>

record 'm glm =
  lookAt :: "dvec3 \<Rightarrow> dvec3 \<Rightarrow> dvec3 \<Rightarrow> 'm"
  frustum :: "real \<Rightarrow> real \<Rightarrow> real \<Rightarrow> real \<Rightarrow> real \<Rightarrow> real \<Rightarrow> 'm"
  project :: "dvec3 \<Rightarrow> 'm \<Rightarrow> 'm \<Rightarrow> dvec4 \<Rightarrow> dvec3"
  yawPitchRoll :: "real \<Rightarrow> real \<Rightarrow> real \<Rightarrow> 'm"
  mulMatVec :: "'m \<Rightarrow> dvec4 \<Rightarrow> dvec4"
  normalizeVec :: "dvec3 \<Rightarrow> dvec3"
  lengthVec :: "dvec3 \<Rightarrow> real"

text \<open>The first three components of a \<open>dvec4\<close>, the difference of two \<open>dvec3\<close>, and the
  assignment \<^verbatim>\<open>projectedPoint.z = 0.0\<close>.\<close>

definition xyz :: "dvec4 \<Rightarrow> dvec3" where
  "xyz v = (case v of (x, y, z, w) \<Rightarrow> (x, y, z))"

definition subVec :: "dvec3 \<Rightarrow> dvec3 \<Rightarrow> dvec3" where
  "subVec a b = (case (a, b) of ((ax, ay, az), (bx, by, bz)) \<Rightarrow> (ax - bx, ay - by, az - bz))"

definition zeroZ :: "dvec3 \<Rightarrow> dvec3" where
  "zeroZ p = (case p of (x, y, z) \<Rightarrow> (x, y, 0))"

text \<open>\<^verbatim>\<open>numeric_limits<double>::max()\<close>.\<close>

definition DBL_MAX :: real where
  "DBL_MAX = (2 ^ 53 - 1) * 2 ^ 971"

text \<open>A division of doubles by zero gives an infinity or a NaN, which is no real number.\<close>

definition double_div :: "real \<Rightarrow> real \<Rightarrow> real option" where
  "double_div x y = (if y = 0 then None else Some (x / y))"

section \<open>Projection and view\<close>

text \<open>
  \<open>Camera::computeProjectionMatrix(fov, cx, cy)\<close> computes the six bounds of the
  frustum and hands them to \<open>frustum\<close>. \<open>_width\<close> and \<open>_height\<close> are integers, converted
  to \<open>double\<close> by the product and the quotient.
\<close>

definition frustumBounds ::
  "'o Camera \<Rightarrow> real \<Rightarrow> real \<Rightarrow> real \<Rightarrow> real \<times> real \<times> real \<times> real \<times> real \<times> real" where
  "frustumBounds c fov' cx' cy' =
     (let n = near c;
          f = far c;
          tTemp = n * tan (fov' * pi / 360);
          bTemp = - tTemp;
          t = tTemp - (cy' - 0.5) * (tTemp - bTemp);
          b = bTemp - (cy' - 0.5) * (tTemp - bTemp);
          rTemp = tTemp * real_of_int (width c) / real_of_int (height c);
          lTemp = bTemp * real_of_int (width c) / real_of_int (height c);
          r = rTemp - (cx' - 0.5) * (rTemp - lTemp);
          l = lTemp - (cx' - 0.5) * (rTemp - lTemp)
      in (l, r, b, t, n, f))"

definition computeProjectionMatrix :: "'m glm \<Rightarrow> 'o Camera \<Rightarrow> real \<Rightarrow> real \<Rightarrow> real \<Rightarrow> 'm" where
  "computeProjectionMatrix G c fov' cx' cy' =
     (case frustumBounds c fov' cx' cy' of (l, r, b, t, n, f) \<Rightarrow> frustum G l r b t n f)"

text \<open>
  \<open>Camera::computeViewMatrix\<close> writes \<open>_target\<close> when it equals \<open>_eye\<close>, and returns the
  matrix of \<open>lookAt\<close>: the result is the matrix and the camera after the call.
\<close>

definition computeViewMatrix :: "'m glm \<Rightarrow> 'o Camera \<Rightarrow> 'm \<times> 'o Camera" where
  "computeViewMatrix G c =
     (let c1 = (if eye c = target c
                then (case (eye c, up c) of
                        ((ex, ey, ez), (ux, uy, uz)) \<Rightarrow> c\<lparr>target := (ex + uy, ey + uz, ez + ux)\<rparr>)
                else c)
      in (lookAt G (eye c1) (target c1) (up c1), c1))"

section \<open>The objective function of the calibration\<close>

text \<open>
  The first loop of \<open>Camera::cameraCalibration_f\<close> goes through the calibration points
  and appends, for each point that is set, its world coordinates to \<open>objectPoints\<close> and
  its screen coordinates, in pixels, to \<open>imagePoints\<close>.
\<close>

fun collectPoints ::
  "'o Camera \<Rightarrow> CalibrationPoint list \<Rightarrow> dvec3 list \<times> dvec3 list \<Rightarrow> dvec3 list \<times> dvec3 list" where
  "collectPoints camera [] acc = acc"
| "collectPoints camera (point # points) (objectPoints, imagePoints) =
     (if \<not> isSet point then collectPoints camera points (objectPoints, imagePoints)
      else collectPoints camera points
             (objectPoints @ [world point],
              imagePoints @ [((fst (screen point) + 1) / 2 * real_of_int (width camera),
                              (snd (screen point) + 1) / 2 * real_of_int (height camera), 0)]))"

text \<open>
  The function itself. \<open>params\<close> is the pointer to the camera (\<open>None\<close> for \<open>NULL\<close>), \<open>v\<close>
  the vector of GSL, read with \<open>gsl_vector_get\<close>. The second loop runs over the indices
  of \<open>imagePoints\<close>; \<open>pow(x, 2.0)\<close> is the square.
\<close>

definition cameraCalibration_f :: "'m glm \<Rightarrow> 'o Camera option \<Rightarrow> real list \<Rightarrow> real option" where
  "cameraCalibration_f G params v =
     (case params of
        None \<Rightarrow> Some 0
      | Some camera \<Rightarrow>
         (let fov' = v ! 0; cx' = v ! 1; cy' = v ! 2;
              eye' = (v ! 3, v ! 4, v ! 5);
              rotateMat = yawPitchRoll G (v ! 6) (v ! 7) (v ! 8);
              targetTmp = mulMatVec G rotateMat (1, 0, 0, 0);
              upTmp = mulMatVec G rotateMat (0, 0, 1, 0);
              target' = xyz targetTmp;
              up' = xyz upTmp;
              (objectPoints, imagePoints) = collectPoints camera (calibrationPoints camera) ([], []);
              lookM = lookAt G eye' target' up';
              projM = computeProjectionMatrix G camera fov' cx' cy';
              viewport = (0, 0, real_of_int (width camera), real_of_int (height camera));
              summedDistance =
                fold (\<lambda>i summedDistance.
                        let projectedPoint = zeroZ (project G (objectPoints ! i) lookM projM viewport)
                        in summedDistance
                             + ((fst (imagePoints ! i) - fst projectedPoint) ^ 2
                                + (fst (snd (imagePoints ! i)) - fst (snd projectedPoint)) ^ 2))
                     [0 ..< length imagePoints] 0
          in double_div summedDistance (real (length imagePoints))))"

text \<open>
  The same quantity in the words of the specification: the squared distance, in pixels,
  between the screen point of a calibration point and the projection of its world point,
  summed over the points that are set and divided by their number.
\<close>

definition pixelOf :: "'o Camera \<Rightarrow> dvec2 \<Rightarrow> dvec2" where
  "pixelOf c s = (case s of (sx, sy) \<Rightarrow>
     ((sx + 1) / 2 * real_of_int (width c), (sy + 1) / 2 * real_of_int (height c)))"

definition reprojectionError :: "'m glm \<Rightarrow> 'o Camera \<Rightarrow> 'm \<Rightarrow> 'm \<Rightarrow> CalibrationPoint \<Rightarrow> real" where
  "reprojectionError G c view proj p =
     (case zeroZ (project G (world p) view proj
                   (0, 0, real_of_int (width c), real_of_int (height c))) of
        (px, py, pz) \<Rightarrow>
          (case pixelOf c (screen p) of
             (sx, sy) \<Rightarrow> (sx - px) ^ 2 + (sy - py) ^ 2))"

definition meanSquaredReprojectionError ::
  "'m glm \<Rightarrow> 'o Camera \<Rightarrow> real \<Rightarrow> real \<Rightarrow> real \<Rightarrow> dvec3 \<Rightarrow> dvec3 \<Rightarrow> real option" where
  "meanSquaredReprojectionError G c fov' cx' cy' eye' euler =
     (case euler of (yaw, pitch, roll) \<Rightarrow>
       (let usable = filter isSet (calibrationPoints c);
            forward = xyz (mulMatVec G (yawPitchRoll G yaw pitch roll) (1, 0, 0, 0));
            upward = xyz (mulMatVec G (yawPitchRoll G yaw pitch roll) (0, 0, 1, 0));
            view = lookAt G eye' forward upward;
            proj = computeProjectionMatrix G c fov' cx' cy'
        in if usable = [] then None
           else Some (sum_list (map (reprojectionError G c view proj) usable)
                        / real (length usable))))"

section \<open>The calibration\<close>

text \<open>
  \<open>Camera::doCalibration\<close> counts the points that are set, gives up below six, and
  otherwise runs the minimizers of GSL on \<open>cameraCalibration_f\<close>: four threads with 36
  random starts each, then eight runs from the best vector found. GSL, the thread pool
  and \<open>rand\<close> are outside the repository: \<open>minimize\<close> stands for the two stages and
  returns \<open>minValue\<close> and the nine \<open>selectedValues\<close>. The third stage writes the pose.
\<close>

definition doCalibration ::
  "'m glm \<Rightarrow> ((real list \<Rightarrow> real option) \<Rightarrow> dvec3 \<Rightarrow> real \<times> real list) \<Rightarrow> 'o Camera
     \<Rightarrow> bool \<times> 'o Camera" where
  "doCalibration G minimize c =
     (let pointsSet = fold (\<lambda>point n. if isSet point then n + 1 else n) (calibrationPoints c) (0 :: int)
      in if pointsSet < 6 then
           (False, c\<lparr>logged := logged c @
              [(Some WARNING, ''Camera::doCalibration - Calibration needs at least 6 points'', [])]\<rparr>)
         else
           (let c1 = (if pointsSet < 7
                      then c\<lparr>logged := logged c @
                             [(Some MESSAGE,
                               ''Camera::doCalibration - For better calibration results, use at least 7 points'',
                               [])]\<rparr>
                      else c);
                c2 = c1\<lparr>calibrationCalledOnce := True\<rparr>;
                c3 = c2\<lparr>logged := logged c2 @
                       [(None, ''Camera::doCalibration - Starting calibration...'', [])]\<rparr>;
                eyeOriginal = eye c3;
                (minValue, selectedValues) = minimize (cameraCalibration_f G (Some c3)) eyeOriginal;
                c4 = c3\<lparr>fov := selectedValues ! 0, cx := selectedValues ! 1, cy := selectedValues ! 2,
                       eye := (selectedValues ! 3, selectedValues ! 4, selectedValues ! 5)\<rparr>;
                rotateMat = yawPitchRoll G (selectedValues ! 6) (selectedValues ! 7) (selectedValues ! 8);
                target' = mulMatVec G rotateMat (1, 0, 0, 0);
                up' = mulMatVec G rotateMat (0, 0, 1, 0);
                c5 = c4\<lparr>target := normalizeVec G (xyz target'), up := normalizeVec G (xyz up')\<rparr>;
                c6 = c5\<lparr>logged := logged c5 @
                       [(None, ''Camera::doCalibration - Minumum found at (fov, cx, cy): '',
                         [fov c5, cx c5, cy c5]),
                        (None, ''Camera::doCalibration - Minimum value: '', [minValue])]\<rparr>
            in (True, c6\<lparr>updatedParams := True\<rparr>)))"

section \<open>Adding and removing calibration points\<close>


text \<open>
  The loops over \<open>_objects\<close> lock each weak pointer and call a method of the object, with
  no test of \<open>expired()\<close>: on an expired pointer (\<open>None\<close>) the call dereferences a null
  pointer. The methods of \<open>Object\<close> are parameters (\<open>objAdd\<close>, \<open>objRemove\<close>).
\<close>

fun forObjects :: "('o \<Rightarrow> 'o) \<Rightarrow> 'o option list \<Rightarrow> fault + 'o option list" where
  "forObjects f [] = Inr []"
| "forObjects f (None # os) = Inl NullDereference"
| "forObjects f (Some ob # os) =
     (case forObjects f os of Inl e \<Rightarrow> Inl e | Inr os' \<Rightarrow> Inr (Some (f ob) # os'))"




text \<open>\<^verbatim>\<open>_calibrationPoints.erase(_calibrationPoints.begin() + i)\<close>.\<close>

definition erase :: "nat \<Rightarrow> 'a list \<Rightarrow> 'a list" where
  "erase i xs = take i xs @ drop (Suc i) xs"

text \<open>
  \<open>Camera::removeCalibrationPoint\<close> with a point of two values: the loop that looks for
  the calibration point whose projection is nearest to \<open>screenPoint\<close>. It returns
  \<open>minDist\<close> and \<open>index\<close>.
\<close>

definition nearestPoint :: "'m glm \<Rightarrow> 'o Camera \<Rightarrow> dvec3 \<Rightarrow> real \<times> int" where
  "nearestPoint G c screenPoint =
     (let lookM = lookAt G (eye c) (target c) (up c);
          projM = computeProjectionMatrix G c (fov c) (cx c) (cy c);
          viewport = (0, 0, real_of_int (width c), real_of_int (height c))
      in fold (\<lambda>i (minDist, index).
                 let projectedPoint =
                       zeroZ (project G (world (calibrationPoints c ! i)) lookM projM viewport)
                 in if lengthVec G (subVec projectedPoint screenPoint) < minDist
                    then (lengthVec G (subVec projectedPoint screenPoint), int i)
                    else (minDist, index))
           [0 ..< length (calibrationPoints c)] (DBL_MAX, - 1))"

text \<open>
  With a point of three values: the loop over the indices \<open>i\<close>, which erases from the
  vector it runs over. After an erasure the index still moves on by one.
\<close>

function removeWorld ::
  "(dvec3 \<Rightarrow> 'o \<Rightarrow> 'o) \<Rightarrow> dvec3 \<Rightarrow> bool \<Rightarrow> nat \<Rightarrow> 'o Camera \<Rightarrow> fault + 'o Camera" where
  "removeWorld objRemove w unlessSet i c =
     (if \<not> i < length (calibrationPoints c) then Inr c
      else if world (calibrationPoints c ! i) = w then
        (if isSet (calibrationPoints c ! i) \<and> unlessSet then removeWorld objRemove w unlessSet (i + 1) c
         else case forObjects (objRemove w) (objects c) of
                Inl e \<Rightarrow> Inl e
              | Inr os \<Rightarrow>
                  removeWorld objRemove w unlessSet (i + 1)
                    (c\<lparr>objects := os,
                       calibrationPoints := erase i (calibrationPoints c),
                       selectedCalibrationPoint := - 1\<rparr>))
      else removeWorld objRemove w unlessSet (i + 1) c)"
  by pat_completeness auto
termination
  by (relation "measure (\<lambda>(objRemove, w, unlessSet, i, c). length (calibrationPoints c) - i)")
     (auto simp: erase_def)

declare removeWorld.simps [simp del]

definition removeCalibrationPoint ::
  "'m glm \<Rightarrow> (dvec3 \<Rightarrow> 'o \<Rightarrow> 'o) \<Rightarrow> real list \<Rightarrow> bool \<Rightarrow> 'o Camera \<Rightarrow> fault + 'o Camera" where
  "removeCalibrationPoint G objRemove point unlessSet c =
     (if length point = 2 then
        (let screenPoint = (point ! 0, point ! 1, 0);
             (minDist, index) = nearestPoint G c screenPoint
         in if index \<noteq> - 1 then
              (case forObjects (objRemove (world (calibrationPoints c ! nat index))) (objects c) of
                 Inl e \<Rightarrow> Inl e
               | Inr os \<Rightarrow>
                   Inr (c\<lparr>objects := os,
                          calibrationPoints := erase (nat index) (calibrationPoints c),
                          calibrationCalledOnce := False\<rparr>))
            else Inr c)
      else if length point = 3 then
        (case removeWorld objRemove (point ! 0, point ! 1, point ! 2) unlessSet 0 c of
           Inl e \<Rightarrow> Inl e
         | Inr c' \<Rightarrow> Inr (c'\<lparr>calibrationCalledOnce := False\<rparr>))
      else Inr c)"

text \<open>The distance that the loop of \<open>nearestPoint\<close> computes for the point of index \<open>i\<close>,
  and one step of the loop.\<close>

definition screenDistance :: "'m glm \<Rightarrow> 'o Camera \<Rightarrow> dvec3 \<Rightarrow> nat \<Rightarrow> real" where
  "screenDistance G c screenPoint i =
     lengthVec G (subVec
       (zeroZ (project G (world (calibrationPoints c ! i))
                 (lookAt G (eye c) (target c) (up c))
                 (computeProjectionMatrix G c (fov c) (cx c) (cy c))
                 (0, 0, real_of_int (width c), real_of_int (height c))))
       screenPoint)"

definition keepNearer :: "(nat \<Rightarrow> real) \<Rightarrow> nat \<Rightarrow> real \<times> int \<Rightarrow> real \<times> int" where
  "keepNearer d i best = (if d i < fst best then (d i, int i) else best)"

section \<open>The blending map: filling the holes and adding the contribution\<close>

text \<open>
  \<open>Camera::computeBlendingMap\<close> fills a map \<open>camMap\<close> of unsigned shorts, one cell for each
  texel of the shared map (\<open>mapSpec.width * mapSpec.height\<close> cells, row after row), and a
  vector \<open>isSet\<close> of the cells it has written. Its last two loops work on these vectors
  alone: the first fills the holes of each row, the second adds \<open>camMap\<close> to the shared map.
\<close>

type_synonym ushort = "16 word"

text \<open>The variables of the hole-filling loop over one row.\<close>

record scan =
  camMap :: "ushort list"
  isSetMap :: "bool list"
  lastFilledPixel :: ushort
  nextFilledPixel :: ushort
  holeStart :: nat
  holeEnd :: nat
  hole :: bool

text \<open>
  The inner loop \<^verbatim>\<open>for (unsigned int xx = x + 2; xx < mapSpec.width; ++xx)\<close>. It has no
  \<open>break\<close>: every set cell it meets overwrites \<open>nextFilledPixel\<close> and \<open>holeEnd\<close>.
\<close>

definition findHoleEnd :: "nat \<Rightarrow> nat \<Rightarrow> nat \<Rightarrow> scan \<Rightarrow> scan" where
  "findHoleEnd w y x s =
     fold (\<lambda>xx s. if isSetMap s ! (y * w + xx)
                     then s\<lparr>nextFilledPixel := camMap s ! (y * w + xx), holeEnd := xx, hole := True\<rparr>
                     else s)
          [x + 2 ..< w] s"

text \<open>
  \<^verbatim>\<open>unsigned short step = ((int)nextFilledPixel - (int)lastFilledPixel) * (int)(x - holeStart) / (int)(holeEnd - holeStart);\<close>
  \<^verbatim>\<open>unsigned short pixelValue = lastFilledPixel + step;\<close>
  The division of C++ truncates towards zero (\<open>sdiv\<close>); both conversions to
  \<open>unsigned short\<close> reduce modulo \<open>2 ^ 16\<close>. The product stays within a 32-bit \<open>int\<close> for
  rows of fewer than 32768 cells.
\<close>

definition interpolate :: "ushort \<Rightarrow> ushort \<Rightarrow> nat \<Rightarrow> nat \<Rightarrow> nat \<Rightarrow> ushort" where
  "interpolate lastP nextP hStart hEnd x =
     (let step = (word_of_int
                    (((uint nextP - uint lastP) * int (x - hStart)) sdiv int (hEnd - hStart)) :: ushort)
      in lastP + step)"

text \<open>
  The loop over the cells \<open>x\<close> of row \<open>y\<close>, from the cell \<open>x\<close> on. Where the source steps
  back (\<^verbatim>\<open>x -= 1; continue;\<close>) the increment of the loop brings \<open>x\<close> back to the same cell.
\<close>

function fillRow :: "nat \<Rightarrow> nat \<Rightarrow> nat \<Rightarrow> scan \<Rightarrow> scan" where
  "fillRow w y x s =
     (if \<not> x < w then s
      else if \<not> isSetMap s ! (y * w + x) \<and> \<not> hole s then fillRow w y (x + 1) s
      else if isSetMap s ! (y * w + x) \<and> \<not> hole s then
        (if x < w - 1 \<and> isSetMap s ! (y * w + x + 1) then fillRow w y (x + 1) s
         else fillRow w y (x + 1)
                (findHoleEnd w y x (s\<lparr>lastFilledPixel := camMap s ! (y * w + x), holeStart := x\<rparr>)))
      else if isSetMap s ! (y * w + x) \<and> hole s then fillRow w y x (s\<lparr>hole := False\<rparr>)
      else fillRow w y (x + 1)
             (s\<lparr>camMap := (camMap s)[y * w + x :=
                    interpolate (lastFilledPixel s) (nextFilledPixel s) (holeStart s) (holeEnd s) x],
                isSetMap := (isSetMap s)[y * w + x := True]\<rparr>))"
  by pat_completeness auto
termination
  by (relation "measure (\<lambda>(w, y, x, s). 2 * (w - x) + (if hole s then 1 else 0))") auto

declare fillRow.simps [simp del]

text \<open>The loop over the rows: the variables of the scan start afresh on each row.\<close>

definition fillHoles :: "nat \<Rightarrow> nat \<Rightarrow> ushort list \<times> bool list \<Rightarrow> ushort list \<times> bool list" where
  "fillHoles w h m =
     fold (\<lambda>y (cm, st).
             let s = fillRow w y 0 \<lparr>camMap = cm, isSetMap = st, lastFilledPixel = 0,
                       nextFilledPixel = 0, holeStart = 0, holeEnd = 0, hole = False\<rparr>
             in (camMap s, isSetMap s))
          [0 ..< h] m"

text \<open>
  The last loop:
  \<^verbatim>\<open>for (y = 0; y < mapSpec.height; ++y) for (x = 0; x < mapSpec.width; ++x)\<close>
  \<^verbatim>\<open>    imageMap[y + mapSpec.width * x] += camMap[y + mapSpec.width * x];\<close>
  The index is \<open>y + width * x\<close>, where the loops before it use \<open>y * width + x\<close>. An index
  beyond the vectors has no defined result.
\<close>

definition addContribution :: "nat \<Rightarrow> nat \<Rightarrow> ushort list \<Rightarrow> ushort list \<Rightarrow> fault + ushort list" where
  "addContribution w h cm imageMap =
     fold (\<lambda>y. fold (\<lambda>x r.
             case r of
               Inl e \<Rightarrow> Inl e
             | Inr im \<Rightarrow>
                 (let i = y + w * x in
                  if i < length im \<and> i < length cm then Inr (im[i := im ! i + cm ! i])
                  else Inl OutOfBounds))
           [0 ..< w])
       [0 ..< h] (Inr imageMap)"

text \<open>One step of this loop, on the cell of index \<open>i\<close>, and the indices the two loops go
  through, in their order.\<close>

definition addAt :: "ushort list \<Rightarrow> nat \<Rightarrow> fault + ushort list \<Rightarrow> fault + ushort list" where
  "addAt cm i r =
     (case r of
        Inl e \<Rightarrow> Inl e
      | Inr im \<Rightarrow> if i < length im \<and> i < length cm then Inr (im[i := im ! i + cm ! i])
                   else Inl OutOfBounds)"

definition cellIndices :: "nat \<Rightarrow> nat \<Rightarrow> nat list" where
  "cellIndices w h = concat (map (\<lambda>y. map (\<lambda>x. y + w * x) [0 ..< w]) [0 ..< h])"

section \<open>Windows and the shared swap counter\<close>

text \<open>
  \<open>Window::_swappableWindowsCount\<close> is a static \<open>atomic_int\<close>, shared by all windows.
  \<open>Window::render\<close> stores 0 in it; \<open>Window::swapBuffers\<close> reads and increments it with one
  \<open>fetch_add(1)\<close>. Both are single atomic operations, so that calls made by several
  threads act on the counter in some order, one after the other: a run is a list of
  calls. The state keeps, next to the counter, the trace of what each window did; the
  other OpenGL calls of the two functions touch the window's own buffers only and are
  left out. \<open>HAVE_OSX\<close> is the build flag of \<open>config.h\<close>.
\<close>

datatype draw_buffer = GL_FRONT | GL_BACK

datatype action =
    ResetCount
  | FetchAdd int
  | DrawBuffer draw_buffer
  | BlitFramebuffer
  | GlfwSwapBuffers

record windows =
  swappableWindowsCount :: int
  trace :: "(nat \<times> action) list"

definition Window_render :: "nat \<Rightarrow> windows \<Rightarrow> windows" where
  "Window_render win s = s\<lparr>swappableWindowsCount := 0, trace := trace s @ [(win, ResetCount)]\<rparr>"

definition Window_swapBuffers :: "bool \<Rightarrow> nat \<Rightarrow> windows \<Rightarrow> windows" where
  "Window_swapBuffers have_osx win s =
     (let windowIndex = swappableWindowsCount s;
          s1 = s\<lparr>swappableWindowsCount := swappableWindowsCount s + 1,
                 trace := trace s @ [(win, FetchAdd windowIndex)]\<rparr>;
          s2 = (if have_osx then s1\<lparr>trace := trace s1 @ [(win, DrawBuffer GL_BACK)]\<rparr>
                else if windowIndex \<noteq> 0 then s1\<lparr>trace := trace s1 @ [(win, DrawBuffer GL_FRONT)]\<rparr>
                else s1\<lparr>trace := trace s1 @ [(win, DrawBuffer GL_BACK)]\<rparr>);
          s3 = s2\<lparr>trace := trace s2 @ [(win, BlitFramebuffer)]\<rparr>
      in if have_osx then s3\<lparr>trace := trace s3 @ [(win, GlfwSwapBuffers)]\<rparr>
         else if windowIndex = 0 then s3\<lparr>trace := trace s3 @ [(win, GlfwSwapBuffers)]\<rparr>
         else s3)"

datatype call = Render nat | SwapBuffers nat

fun exec :: "bool \<Rightarrow> call \<Rightarrow> windows \<Rightarrow> windows" where
  "exec have_osx (Render win) s = Window_render win s"
| "exec have_osx (SwapBuffers win) s = Window_swapBuffers have_osx win s"

definition run :: "bool \<Rightarrow> call list \<Rightarrow> windows \<Rightarrow> windows" where
  "run have_osx calls s = fold (exec have_osx) calls s"

text \<open>The windows that did \<open>a\<close> between the states \<open>s\<close> and \<open>s'\<close>, in the order of the trace.\<close>

definition did :: "action \<Rightarrow> windows \<Rightarrow> windows \<Rightarrow> nat list" where
  "did a s s' = map fst (filter (\<lambda>e. snd e = a) (drop (length (trace s)) (trace s')))"

definition windows0 :: windows where
  "windows0 = \<lparr>swappableWindowsCount = 0, trace = []\<rparr>"

text \<open>What a call of \<open>swapBuffers\<close> adds to the trace when it reads \<open>k\<close> (no OSX), and what a
  row of such calls adds, the first of them reading \<open>k\<close>.\<close>

definition swapTrace :: "int \<Rightarrow> nat \<Rightarrow> (nat \<times> action) list" where
  "swapTrace k w =
     (if k = 0
      then [(w, FetchAdd 0), (w, DrawBuffer GL_BACK), (w, BlitFramebuffer), (w, GlfwSwapBuffers)]
      else [(w, FetchAdd k), (w, DrawBuffer GL_FRONT), (w, BlitFramebuffer)])"

fun laterSwaps :: "int \<Rightarrow> nat list \<Rightarrow> (nat \<times> action) list" where
  "laterSwaps k [] = []"
| "laterSwaps k (w # ws) = swapTrace k w @ laterSwaps (k + 1) ws"

text \<open>What a row of calls of \<open>swapBuffers\<close> adds to the trace on a build for OSX.\<close>

fun osxSwaps :: "int \<Rightarrow> nat list \<Rightarrow> (nat \<times> action) list" where
  "osxSwaps k [] = []"
| "osxSwaps k (w # ws) =
     [(w, FetchAdd k), (w, DrawBuffer GL_BACK), (w, BlitFramebuffer), (w, GlfwSwapBuffers)]
       @ osxSwaps (k + 1) ws"

section \<open>An instance of the library, and cameras to run the model on\<close>

text \<open>
  The functions of GLM over the reals, with the formulas of the library: matrices are
  four columns, \<open>lookAt\<close> is the right-handed one, \<open>frustum\<close> maps the depth to
  \<open>[-1, 1]\<close>, \<open>project\<close> divides by \<open>w\<close> and maps to the viewport. The instance serves to
  run the model on concrete cameras; the general theorems do not use it.
\<close>

type_synonym dmat4 = "dvec4 \<times> dvec4 \<times> dvec4 \<times> dvec4"

definition dot3 :: "dvec3 \<Rightarrow> dvec3 \<Rightarrow> real" where
  "dot3 a b = (case (a, b) of ((ax, ay, az), (bx, by, bz)) \<Rightarrow> ax * bx + ay * by + az * bz)"

definition cross3 :: "dvec3 \<Rightarrow> dvec3 \<Rightarrow> dvec3" where
  "cross3 a b = (case (a, b) of ((ax, ay, az), (bx, by, bz)) \<Rightarrow>
     (ay * bz - by * az, az * bx - bz * ax, ax * by - bx * ay))"

definition length3 :: "dvec3 \<Rightarrow> real" where
  "length3 a = sqrt (dot3 a a)"

definition normalize3 :: "dvec3 \<Rightarrow> dvec3" where
  "normalize3 a = (case a of (ax, ay, az) \<Rightarrow>
     (ax * (1 / sqrt (dot3 a a)), ay * (1 / sqrt (dot3 a a)), az * (1 / sqrt (dot3 a a))))"

definition mulMat4Vec4 :: "dmat4 \<Rightarrow> dvec4 \<Rightarrow> dvec4" where
  "mulMat4Vec4 m v =
     (case (m, v) of
        (((a0, a1, a2, a3), (b0, b1, b2, b3), (c0, c1, c2, c3), (d0, d1, d2, d3)), (x, y, z, w)) \<Rightarrow>
          (a0 * x + b0 * y + c0 * z + d0 * w,
           a1 * x + b1 * y + c1 * z + d1 * w,
           a2 * x + b2 * y + c2 * z + d2 * w,
           a3 * x + b3 * y + c3 * z + d3 * w))"

definition lookAt_real :: "dvec3 \<Rightarrow> dvec3 \<Rightarrow> dvec3 \<Rightarrow> dmat4" where
  "lookAt_real eye' center up' =
     (let f = normalize3 (subVec center eye');
          s = normalize3 (cross3 f up');
          u = cross3 s f
      in case (s, u, f) of
           ((sx, sy, sz), (ux, uy, uz), (fx, fy, fz)) \<Rightarrow>
             ((sx, ux, - fx, 0), (sy, uy, - fy, 0), (sz, uz, - fz, 0),
              (- dot3 s eye', - dot3 u eye', dot3 f eye', 1)))"

definition frustum_real :: "real \<Rightarrow> real \<Rightarrow> real \<Rightarrow> real \<Rightarrow> real \<Rightarrow> real \<Rightarrow> dmat4" where
  "frustum_real l r b t n f =
     ((2 * n / (r - l), 0, 0, 0),
      (0, 2 * n / (t - b), 0, 0),
      ((r + l) / (r - l), (t + b) / (t - b), - (f + n) / (f - n), - 1),
      (0, 0, - (2 * f * n) / (f - n), 0))"

definition project_real :: "dvec3 \<Rightarrow> dmat4 \<Rightarrow> dmat4 \<Rightarrow> dvec4 \<Rightarrow> dvec3" where
  "project_real obj model proj viewport =
     (case (obj, viewport) of
        ((ox, oy, oz), (v0, v1, v2, v3)) \<Rightarrow>
          (case mulMat4Vec4 proj (mulMat4Vec4 model (ox, oy, oz, 1)) of
             (x, y, z, w) \<Rightarrow>
               ((x / w * 0.5 + 0.5) * v2 + v0, (y / w * 0.5 + 0.5) * v3 + v1, z / w * 0.5 + 0.5)))"

definition yawPitchRoll_real :: "real \<Rightarrow> real \<Rightarrow> real \<Rightarrow> dmat4" where
  "yawPitchRoll_real yaw pitch roll =
     (let ch = cos yaw; sh = sin yaw; cp = cos pitch; sp = sin pitch; cb = cos roll; sb = sin roll
      in ((ch * cb + sh * sp * sb, sb * cp, - sh * cb + ch * sp * sb, 0),
          (- ch * sb + sh * sp * cb, cb * cp, sb * sh + ch * sp * cb, 0),
          (sh * cp, - sp, ch * cp, 0),
          (0, 0, 0, 1)))"

definition glm_real :: "dmat4 glm" where
  "glm_real = \<lparr>lookAt = lookAt_real, frustum = frustum_real, project = project_real,
      yawPitchRoll = yawPitchRoll_real, mulMatVec = mulMat4Vec4,
      normalizeVec = normalize3, lengthVec = length3\<rparr>"

text \<open>A camera with three calibration points, none of them set.\<close>

definition cam3 :: "unit Camera" where
  "cam3 = \<lparr>calibrationPoints =
      [\<lparr>world = (0, 0, 0), screen = (0, 0), isSet = False\<rparr>,
       \<lparr>world = (1, 0, 0), screen = (0, 0), isSet = False\<rparr>,
       \<lparr>world = (0, 1, 0), screen = (0, 0), isSet = False\<rparr>],
     selectedCalibrationPoint = 2, calibrationCalledOnce = False, updatedParams = False,
     objects = [], eye = (0, 0, 0), target = (1, 0, 0), up = (0, 0, 1),
     fov = 35, cx = 1 / 2, cy = 1 / 2, near = 1 / 10, far = 100,
     width = 512, height = 512, logged = []\<rparr>"

text \<open>
  A camera at the origin that looks along the x axis, with a field of view of 90
  degrees and an image of 512 by 512 pixels. Its one calibration point is set; its
  world point \<open>(2, 0, 0)\<close> is projected to the middle of the image, the pixel
  \<open>(256, 256)\<close>.
\<close>

definition cam1 :: "unit Camera" where
  "cam1 = \<lparr>calibrationPoints = [\<lparr>world = (2, 0, 0), screen = (0, 0), isSet = True\<rparr>],
     selectedCalibrationPoint = 0, calibrationCalledOnce = True, updatedParams = False,
     objects = [Some ()], eye = (0, 0, 0), target = (1, 0, 0), up = (0, 0, 1),
     fov = 90, cx = 1 / 2, cy = 1 / 2, near = 1, far = 3,
     width = 512, height = 512, logged = []\<rparr>"

text \<open>The same camera with two points: the first is set and was clicked a quarter of
  the image to the right of the middle, the second is not set.\<close>

definition cam2 :: "unit Camera" where
  "cam2 = cam1\<lparr>calibrationPoints :=
      [\<lparr>world = (2, 0, 0), screen = (1 / 2, 0), isSet = True\<rparr>,
       \<lparr>world = (2, 1, 0), screen = (0, 0), isSet = False\<rparr>]\<rparr>"

text \<open>The same camera with six points that are set, and with seven, and a minimizer that
  returns a pose none of these cameras has.\<close>

definition cam6 :: "unit Camera" where
  "cam6 = cam1\<lparr>calibrationPoints :=
      map (\<lambda>k. \<lparr>world = (2, real k, 0), screen = (0, 0), isSet = True\<rparr>) [0 ..< 6]\<rparr>"

definition cam7 :: "unit Camera" where
  "cam7 = cam1\<lparr>calibrationPoints :=
      map (\<lambda>k. \<lparr>world = (2, real k, 0), screen = (0, 0), isSet = True\<rparr>) [0 ..< 7]\<rparr>"

definition minimize1 :: "(real list \<Rightarrow> real option) \<Rightarrow> dvec3 \<Rightarrow> real \<times> real list" where
  "minimize1 f eyeOriginal = (1 / 4, [60, 1 / 4, 3 / 4, 1, 2, 3, 0, 0, 0])"




section \<open>Theorems\<close>

subsection \<open>Selecting the next calibration point\<close>

lemma to_size_t_nonneg: "0 \<le> i \<Longrightarrow> i < 2 ^ 64 \<Longrightarrow> to_size_t i = nat i"
  by (simp add: to_size_t_def)

text \<open>
  Claim C10, as the code has it. With no calibration point the divisor is zero and the
  handler has no defined result: the operation needs a non-empty list. With at least one
  point the handler returns normally; the sum \<open>selected + 1\<close> is read as a \<open>size_t\<close>
  before the remainder is taken. From \<open>selected \<ge> -1\<close> on (no selection is \<open>-1\<close>) the
  index stored is \<open>(selected + 1) mod size\<close>. Below \<open>-1\<close> the sum is negative, the
  \<open>size_t\<close> is \<open>2\<^sup>6\<^sup>4 + selected + 1\<close>, and the index stored is the remainder of
  that number.
\<close>

theorem selectNextCalibrationPoint_from_minus_one:
  "(calibrationPoints c \<noteq> [] \<and> - 1 \<le> selectedCalibrationPoint c
      \<and> selectedCalibrationPoint c < 2 ^ 31 - 1 \<longrightarrow>
      selectNextCalibrationPoint c =
        Inr (True, c\<lparr>selectedCalibrationPoint :=
               (selectedCalibrationPoint c + 1) mod int (length (calibrationPoints c))\<rparr>))
   \<and> (calibrationPoints c \<noteq> [] \<and> - (2 ^ 31) \<le> selectedCalibrationPoint c
      \<and> selectedCalibrationPoint c < - 1 \<longrightarrow>
      selectNextCalibrationPoint c =
        Inr (True, c\<lparr>selectedCalibrationPoint :=
               (2 ^ 64 + selectedCalibrationPoint c + 1) mod int (length (calibrationPoints c))\<rparr>))
   \<and> (calibrationPoints c = [] \<longrightarrow> selectNextCalibrationPoint c = Inl DivisionByZero)"
proof -
  have idx: "int (to_size_t (i + 1) mod n) = (i + 1) mod int n"
    if "- 1 \<le> i" "i < 2 ^ 31 - 1" for i :: int and n :: nat
  proof -
    have "to_size_t (i + 1) = nat (i + 1)"
      using that by (intro to_size_t_nonneg) auto
    then show ?thesis
      using that by (simp add: zmod_int)
  qed
  have neg: "int (to_size_t (i + 1) mod n) = (2 ^ 64 + i + 1) mod int n"
    if "- (2 ^ 31) \<le> i" "i < - 1" for i :: int and n :: nat
  proof -
    have "(i + 1) mod 2 ^ 64 = (i + 1 + 2 ^ 64) mod 2 ^ 64"
      by (rule mod_add_self2 [symmetric])
    also have "\<dots> = i + 1 + 2 ^ 64"
      using that by (intro mod_pos_pos_trivial) auto
    finally have "(i + 1) mod 2 ^ 64 = 2 ^ 64 + i + 1"
      by simp
    then have "to_size_t (i + 1) = nat (2 ^ 64 + i + 1)"
      by (simp add: to_size_t_def)
    moreover have "0 \<le> 2 ^ 64 + i + 1"
      using that by simp
    ultimately show ?thesis
      by (simp add: zmod_int)
  qed
  show ?thesis
    by (auto simp: selectNextCalibrationPoint_def Let_def idx neg)
qed

theorem selectNextCalibrationPoint_from_minus_one_witness:
  "selectNextCalibrationPoint cam3 = Inr (True, cam3\<lparr>selectedCalibrationPoint := 0\<rparr>)
   \<and> selectNextCalibrationPoint (deselectCalibrationPoint cam3)
       = Inr (True, cam3\<lparr>selectedCalibrationPoint := 0\<rparr>)
   \<and> selectNextCalibrationPoint (cam3\<lparr>selectedCalibrationPoint := - 3\<rparr>)
       = Inr (True, cam3\<lparr>selectedCalibrationPoint := 2\<rparr>)
   \<and> selectNextCalibrationPoint (cam3\<lparr>calibrationPoints := []\<rparr>) = Inl DivisionByZero"
  using selectNextCalibrationPoint_from_minus_one [of cam3]
    selectNextCalibrationPoint_from_minus_one [of "deselectCalibrationPoint cam3"]
    selectNextCalibrationPoint_from_minus_one [of "cam3\<lparr>selectedCalibrationPoint := - 3\<rparr>"]
    selectNextCalibrationPoint_from_minus_one [of "cam3\<lparr>calibrationPoints := []\<rparr>"]
  by (simp add: cam3_def deselectCalibrationPoint_def)

text \<open>
  Claim C10 as stated fails. After \<open>deselectCalibrationPoint\<close> the selection is \<open>-1\<close>, and
  \<open>selectPreviousCalibrationPoint\<close> makes it \<open>-2\<close>. With three calibration points the
  handler then stores \<open>0\<close>, the remainder of \<open>2\<^sup>6\<^sup>4 - 1\<close> by three, where
  \<open>(selected + 1) mod size\<close> is \<open>2\<close> and the remainder of the signed division is \<open>-1\<close>.
\<close>

theorem selectNextCalibrationPoint_after_previous:
  "snd (selectPreviousCalibrationPoint (deselectCalibrationPoint cam3))
     = cam3\<lparr>selectedCalibrationPoint := - 2\<rparr>
   \<and> selectNextCalibrationPoint (cam3\<lparr>selectedCalibrationPoint := - 2\<rparr>)
       = Inr (True, cam3\<lparr>selectedCalibrationPoint := 0\<rparr>)
   \<and> (- 2 + 1) mod int (length (calibrationPoints cam3)) = 2
   \<and> (- 2 + 1) smod int (length (calibrationPoints cam3)) = - 1"
  by (simp add: selectPreviousCalibrationPoint_def deselectCalibrationPoint_def
      selectNextCalibrationPoint_def to_size_t_def cam3_def signed_modulo_int_def signed_divide_int_def)


subsection \<open>Filling the holes of the blending map\<close>

text \<open>
  A row with set cells at the positions 0 and 9 only, holding 100 and 200: the cells
  between them receive a ramp that increases strictly, the steps \<open>100 * x / 9\<close> rounded
  towards zero.
\<close>

lemma fillHoles_ramp:
  "fillHoles 10 1
     ([100, 0, 0, 0, 0, 0, 0, 0, 0, 200],
      [True, False, False, False, False, False, False, False, False, True])
   = ([100, 111, 122, 133, 144, 155, 166, 177, 188, 200], replicate 10 True)"
  by code_simp

text \<open>
  Claim C4. A row of five cells with set cells at the positions 0, 2 and 4, holding 100,
  200 and 100. The cell 1 lies between the set cells 0 and 2, and the interpolation
  between these two gives 150. The code stores 100: the search for the end of the hole
  runs on to the last set cell of the row, so that the cell 1 is interpolated between
  the cells 0 and 4. The cell 3, whose hole ends at the last set cell, receives 150.
\<close>

theorem fillHoles_three_set_cells:
  "fillHoles 5 1 ([100, 0, 200, 0, 100], [True, False, True, False, True])
     = ([100, 100, 200, 150, 100], [True, True, True, True, True])
   \<and> interpolate 100 200 0 2 1 = 150"
  by code_simp

subsection \<open>Adding the contribution of a camera to the shared map\<close>

text \<open>
  Claim C5. A map of width 2 and height 3, the shared map at zero, the camera's map
  holding 1 to 6. Adding cell by cell would give 1 to 6. The code adds the cell of
  index 2 twice (for \<open>y = 0, x = 1\<close> and for \<open>y = 2, x = 0\<close>) and never reaches the cell
  of index 5: it indexes with \<open>y + width * x\<close>.
\<close>

theorem addContribution_transposed_index:
  "addContribution 2 3 [1, 2, 3, 4, 5, 6] [0, 0, 0, 0, 0, 0] = Inr [1, 2, 6, 4, 5, 0]
   \<and> map2 (+) [0, 0, 0, 0, 0, 0] [1, 2, 3, 4, 5, 6 :: ushort] = [1, 2, 3, 4, 5, 6]
   \<and> addContribution 3 2 [1, 2, 3, 4, 5, 6] [0, 0, 0, 0, 0, 0] = Inl OutOfBounds"
  by code_simp

text \<open>On a square map every cell is reached once, and the sum wraps around at \<open>2 ^ 16\<close>.\<close>

lemma addContribution_square:
  "addContribution 2 2 [1, 2, 3, 4] [10, 20, 30, 65535] = Inr [11, 22, 33, 3]"
  by (simp add: addContribution_def upt_rec)

text \<open>
  The second part of claim C5 holds on the code: the loop adds, to each cell, the
  camera's value as often as the loops reach the cell, so that the contributions of two
  cameras can be added in either order.
\<close>

lemma fold_concat_lists: "fold f (concat xss) = fold (fold f) xss"
  by (induction xss) simp_all

lemma addContribution_fold:
  "addContribution w h cm im = fold (addAt cm) (cellIndices w h) (Inr im)"
proof -
  have body: "(\<lambda>x r. case r of Inl e \<Rightarrow> Inl e
                 | Inr im \<Rightarrow> (let i = y + w * x in
                     if i < length im \<and> i < length cm then Inr (im[i := im ! i + cm ! i])
                     else Inl OutOfBounds))
      = (\<lambda>x. addAt cm (y + w * x))" for y
    by (intro ext) (simp add: addAt_def Let_def split: sum.splits)
  have "addContribution w h cm im
      = fold (\<lambda>y. fold (\<lambda>x. addAt cm (y + w * x)) [0 ..< w]) [0 ..< h] (Inr im)"
    unfolding addContribution_def body ..
  also have "\<dots> = fold (addAt cm) (cellIndices w h) (Inr im)"
    by (simp add: cellIndices_def fold_concat_lists fold_map comp_def)
  finally show ?thesis .
qed

lemma fold_addAt_fault: "fold (addAt cm) is (Inl e) = Inl e"
  by (induction "is") (simp_all add: addAt_def)

lemma fold_addAt:
  "fold (addAt cm) is (Inr im) =
     (if \<forall>i \<in> set is. i < length im \<and> i < length cm
      then Inr (map (\<lambda>k. im ! k + of_nat (count_list is k) * cm ! k) [0 ..< length im])
      else Inl OutOfBounds)"
proof (induction "is" arbitrary: im)
  case Nil
  then show ?case by (simp add: map_nth)
next
  case (Cons i "is")
  show ?case
  proof (cases "i < length im \<and> i < length cm")
    case False
    then have "addAt cm i (Inr im) = Inl OutOfBounds"
      by (simp add: addAt_def)
    with False show ?thesis by (auto simp: fold_addAt_fault)
  next
    case True
    let ?im = "im[i := im ! i + cm ! i]"
    have "addAt cm i (Inr im) = Inr ?im"
      using True by (simp add: addAt_def)
    then have "fold (addAt cm) (i # is) (Inr im) = fold (addAt cm) is (Inr ?im)"
      by simp
    also have "\<dots> = (if \<forall>j \<in> set is. j < length im \<and> j < length cm
        then Inr (map (\<lambda>k. ?im ! k + of_nat (count_list is k) * cm ! k) [0 ..< length im])
        else Inl OutOfBounds)"
      by (simp add: Cons.IH)
    also have "map (\<lambda>k. ?im ! k + of_nat (count_list is k) * cm ! k) [0 ..< length im]
        = map (\<lambda>k. im ! k + of_nat (count_list (i # is) k) * cm ! k) [0 ..< length im]"
      using True by (auto simp: nth_list_update algebra_simps)
    finally show ?thesis using True by simp
  qed
qed

lemma addContribution_cells:
  "addContribution w h cm im =
     (if \<forall>i \<in> set (cellIndices w h). i < length im \<and> i < length cm
      then Inr (map (\<lambda>k. im ! k + of_nat (count_list (cellIndices w h) k) * cm ! k)
                  [0 ..< length im])
      else Inl OutOfBounds)"
  by (simp add: addContribution_fold fold_addAt)

lemma addContribution_in_bounds:
  "\<forall>i \<in> set (cellIndices w h). i < length im \<and> i < length cm \<Longrightarrow>
     addContribution w h cm im
       = Inr (map (\<lambda>k. im ! k + of_nat (count_list (cellIndices w h) k) * cm ! k)
                [0 ..< length im])"
  by (subst addContribution_cells) (erule if_P)

lemma addContribution_out_of_bounds:
  "\<not> (\<forall>i \<in> set (cellIndices w h). i < length im \<and> i < length cm) \<Longrightarrow>
     addContribution w h cm im = Inl OutOfBounds"
  by (subst addContribution_cells) (erule if_not_P)

lemma addContribution_twice:
  "(case addContribution w h cmA im of Inl e \<Rightarrow> Inl e | Inr im1 \<Rightarrow> addContribution w h cmB im1)
   = (if \<forall>i \<in> set (cellIndices w h). i < length im \<and> i < length cmA \<and> i < length cmB
      then Inr (map (\<lambda>k. im ! k + of_nat (count_list (cellIndices w h) k) * (cmA ! k + cmB ! k))
                  [0 ..< length im])
      else Inl OutOfBounds)"
proof (cases "\<forall>i \<in> set (cellIndices w h). i < length im \<and> i < length cmA")
  case False
  then have "addContribution w h cmA im = Inl OutOfBounds"
    by (rule addContribution_out_of_bounds)
  with False show ?thesis by auto
next
  case okA: True
  let ?n = "length im"
  let ?cnt = "\<lambda>k. (of_nat (count_list (cellIndices w h) k) :: ushort)"
  let ?imA = "map (\<lambda>k. im ! k + ?cnt k * cmA ! k) [0 ..< ?n]"
  have a: "addContribution w h cmA im = Inr ?imA"
    using okA by (rule addContribution_in_bounds)
  show ?thesis
  proof (cases "\<forall>i \<in> set (cellIndices w h). i < length cmB")
    case False
    then have "\<not> (\<forall>i \<in> set (cellIndices w h). i < length ?imA \<and> i < length cmB)"
      by blast
    then have "addContribution w h cmB ?imA = Inl OutOfBounds"
      by (rule addContribution_out_of_bounds)
    with a False show ?thesis by auto
  next
    case okB: True
    have okB': "\<forall>i \<in> set (cellIndices w h). i < length ?imA \<and> i < length cmB"
      using okA okB by simp
    have "addContribution w h cmB ?imA
        = Inr (map (\<lambda>k. ?imA ! k + ?cnt k * cmB ! k) [0 ..< length ?imA])"
      using okB' by (rule addContribution_in_bounds)
    also have "map (\<lambda>k. ?imA ! k + ?cnt k * cmB ! k) [0 ..< length ?imA]
        = map (\<lambda>k. im ! k + ?cnt k * (cmA ! k + cmB ! k)) [0 ..< ?n]"
      by (rule nth_equalityI) (simp_all add: distrib_left)
    finally have "addContribution w h cmB ?imA
        = Inr (map (\<lambda>k. im ! k + ?cnt k * (cmA ! k + cmB ! k)) [0 ..< ?n])" .
    with a okA okB show ?thesis by simp
  qed
qed

lemma addContribution_commute:
  "(case addContribution w h cmA im of Inl e \<Rightarrow> Inl e | Inr im1 \<Rightarrow> addContribution w h cmB im1)
   = (case addContribution w h cmB im of Inl e \<Rightarrow> Inl e | Inr im1 \<Rightarrow> addContribution w h cmA im1)"
proof -
  have "(\<forall>i \<in> set (cellIndices w h). i < length im \<and> i < length cmA \<and> i < length cmB)
      = (\<forall>i \<in> set (cellIndices w h). i < length im \<and> i < length cmB \<and> i < length cmA)"
    by blast
  then show ?thesis
    unfolding addContribution_twice by (simp only: add.commute [of "cmA ! _" "cmB ! _"])
qed

subsection \<open>One real swap for each group of frames\<close>

lemma run_append: "run osx (xs @ ys) s = run osx ys (run osx xs s)"
  by (simp add: run_def)

lemma renders_trace:
  "trace (run osx (map Render rs) s) = trace s @ map (\<lambda>w. (w, ResetCount)) rs"
  by (induction rs arbitrary: s) (simp_all add: run_def Window_render_def)

lemma renders_count:
  "rs \<noteq> [] \<Longrightarrow> swappableWindowsCount (run osx (map Render rs) s) = 0"
  by (induction rs arbitrary: s rule: rev_induct) (simp_all add: run_def Window_render_def)

lemma swap_one:
  "Window_swapBuffers False w s =
     s\<lparr>swappableWindowsCount := swappableWindowsCount s + 1,
       trace := trace s @ swapTrace (swappableWindowsCount s) w\<rparr>"
  by (simp add: Window_swapBuffers_def Let_def swapTrace_def)

lemma swaps_trace:
  "trace (run False (map SwapBuffers ws) s) = trace s @ laterSwaps (swappableWindowsCount s) ws"
  by (induction ws arbitrary: s) (simp_all add: run_def swap_one)

lemma did_append:
  "trace s' = trace s @ t \<Longrightarrow> did a s s' = map fst (filter (\<lambda>e. snd e = a) t)"
  by (simp add: did_def)

lemma laterSwaps_pos:
  "0 < k \<Longrightarrow>
     filter (\<lambda>e. snd e = GlfwSwapBuffers) (laterSwaps k ws) = [] \<and>
     filter (\<lambda>e. snd e = FetchAdd 0) (laterSwaps k ws) = [] \<and>
     filter (\<lambda>e. snd e = DrawBuffer GL_BACK) (laterSwaps k ws) = [] \<and>
     map fst (filter (\<lambda>e. snd e = DrawBuffer GL_FRONT) (laterSwaps k ws)) = ws \<and>
     filter (\<lambda>e. snd e = ResetCount) (laterSwaps k ws) = []"
  by (induction ws arbitrary: k) (simp_all add: swapTrace_def)

text \<open>
  Claim C6, as the code has it. The windows \<open>rs\<close> render, in this order, and then the
  windows \<open>ws\<close> swap, their \<open>fetch_add\<close> taking effect in this order; there is at least one
  of each, and the build is not for OSX. Then exactly one call of \<open>swapBuffers\<close> reads 0,
  the first one: it alone draws to the back buffer and calls \<open>glfwSwapBuffers\<close>; every
  other call draws to the front buffer. The counter is reset by each call of \<open>render\<close>:
  once for each window, not once for the group.
\<close>

theorem swapBuffers_one_real_swap:
  fixes s :: windows
  assumes "rs \<noteq> []" and "ws \<noteq> []"
  defines "s' \<equiv> run False (map Render rs @ map SwapBuffers ws) s"
  shows "did (FetchAdd 0) s s' = [hd ws]
       \<and> did GlfwSwapBuffers s s' = [hd ws]
       \<and> did (DrawBuffer GL_BACK) s s' = [hd ws]
       \<and> did (DrawBuffer GL_FRONT) s s' = tl ws
       \<and> did ResetCount s s' = rs"
proof -
  obtain w ws' where ws: "ws = w # ws'"
    using assms(2) by (cases ws) auto
  let ?r = "run False (map Render rs) s"
  have c: "swappableWindowsCount ?r = 0"
    using assms(1) by (rule renders_count)
  have t: "trace s' = trace s @ (map (\<lambda>w. (w, ResetCount)) rs @ swapTrace 0 w @ laterSwaps 1 ws')"
    unfolding s'_def run_append swaps_trace c renders_trace ws by simp
  note p = laterSwaps_pos [of 1 ws', simplified]
  show ?thesis
    unfolding did_append [OF t] by (simp add: ws p swapTrace_def filter_empty_conv comp_def)
qed

text \<open>Five windows: they render in the order 0 to 4 and swap in the order 3, 0, 4, 1, 2.\<close>

theorem swapBuffers_one_real_swap_witness:
  "did GlfwSwapBuffers windows0
     (run False (map Render [0, 1, 2, 3, 4] @ map SwapBuffers [3, 0, 4, 1, 2]) windows0) = [3]
   \<and> did (DrawBuffer GL_FRONT) windows0
     (run False (map Render [0, 1, 2, 3, 4] @ map SwapBuffers [3, 0, 4, 1, 2]) windows0) = [0, 4, 1, 2]
   \<and> did ResetCount windows0
     (run False (map Render [0, 1, 2, 3, 4] @ map SwapBuffers [3, 0, 4, 1, 2]) windows0) = [0, 1, 2, 3, 4]"
  using swapBuffers_one_real_swap [of "[0, 1, 2, 3, 4]" "[3, 0, 4, 1, 2]" windows0] by simp

text \<open>
  Claim C6 as stated fails. Two windows, each calling \<open>render\<close> and then \<open>swapBuffers\<close>, the
  second window after the first: both calls of \<open>swapBuffers\<close> read 0 and both windows
  call \<open>glfwSwapBuffers\<close>. And when both render before both swap, the counter is reset
  twice in the group, once by each window.
\<close>

theorem swapBuffers_group_counterexample:
  "did GlfwSwapBuffers windows0
     (run False [Render 0, SwapBuffers 0, Render 1, SwapBuffers 1] windows0) = [0, 1]
   \<and> did (FetchAdd 0) windows0
     (run False [Render 0, SwapBuffers 0, Render 1, SwapBuffers 1] windows0) = [0, 1]
   \<and> did ResetCount windows0
     (run False [Render 0, Render 1, SwapBuffers 0, SwapBuffers 1] windows0) = [0, 1]"
  by (simp add: did_def run_def windows0_def Window_render_def Window_swapBuffers_def)

text \<open>On a build for OSX every window draws to the back buffer and calls
  \<open>glfwSwapBuffers\<close>, whatever it reads from the counter.\<close>

lemma swap_one_osx:
  "Window_swapBuffers True w s =
     s\<lparr>swappableWindowsCount := swappableWindowsCount s + 1,
       trace := trace s @ [(w, FetchAdd (swappableWindowsCount s)), (w, DrawBuffer GL_BACK),
                           (w, BlitFramebuffer), (w, GlfwSwapBuffers)]\<rparr>"
  by (simp add: Window_swapBuffers_def Let_def)

lemma swaps_trace_osx:
  "trace (run True (map SwapBuffers ws) s) = trace s @ osxSwaps (swappableWindowsCount s) ws"
  by (induction ws arbitrary: s) (simp_all add: run_def swap_one_osx)

lemma osxSwaps_present:
  "map fst (filter (\<lambda>e. snd e = GlfwSwapBuffers) (osxSwaps k ws)) = ws"
  by (induction ws arbitrary: k) simp_all

lemma swapBuffers_osx_all_present:
  "did GlfwSwapBuffers s (run True (map SwapBuffers ws) s) = ws"
  by (simp add: did_append [OF swaps_trace_osx] osxSwaps_present)

subsection \<open>The objective function is the mean squared reprojection error\<close>

lemma collectPoints_filter:
  "collectPoints camera ps (os, is) =
     (os @ map world (filter isSet ps),
      is @ map (\<lambda>p. ((fst (screen p) + 1) / 2 * real_of_int (width camera),
                       (snd (screen p) + 1) / 2 * real_of_int (height camera), 0))
             (filter isSet ps))"
  by (induction ps arbitrary: os "is") simp_all

lemma fold_index_sum:
  "fold (\<lambda>i s. s + g i) [0 ..< n] (a :: real) = a + (\<Sum>i < n. g i)"
  by (induction n arbitrary: a) simp_all

lemma sum_nth_map:
  "(\<Sum>i < length xs. (h (xs ! i) :: real)) = sum_list (map h xs)"
  by (simp add: sum_list_sum_nth atLeast0LessThan)

text \<open>
  Claim C1. For every camera and every vector of nine parameters
  \<open>(fov, cx, cy, eye, euler)\<close>, \<open>cameraCalibration_f\<close> returns the mean squared
  reprojection error over the calibration points that are set: each of them is
  projected through the view of \<open>lookAt\<close> for the eye and the rotated vectors
  \<open>(1, 0, 0)\<close> and \<open>(0, 0, 1)\<close>, and through the projection for \<open>(fov, cx, cy)\<close>; the
  squared distance in pixels to its screen point is summed, and the sum divided by the
  number of points that are set. Points that are not set add nothing. With no point
  set the quotient is \<open>0 / 0\<close>, on both sides.
\<close>

theorem cameraCalibration_f_mean:
  "cameraCalibration_f G (Some c) [fov', cx', cy', ex, ey, ez, yaw, pitch, roll]
     = meanSquaredReprojectionError G c fov' cx' cy' (ex, ey, ez) (yaw, pitch, roll)"
proof -
  let ?us = "filter isSet (calibrationPoints c)"
  let ?view = "lookAt G (ex, ey, ez)
                 (xyz (mulMatVec G (yawPitchRoll G yaw pitch roll) (1, 0, 0, 0)))
                 (xyz (mulMatVec G (yawPitchRoll G yaw pitch roll) (0, 0, 1, 0)))"
  let ?proj = "computeProjectionMatrix G c fov' cx' cy'"
  let ?img = "\<lambda>p. ((fst (screen p) + 1) / 2 * real_of_int (width c),
                   (snd (screen p) + 1) / 2 * real_of_int (height c), 0::real)"
  let ?g = "\<lambda>i. (fst (map ?img ?us ! i)
                   - fst (zeroZ (project G (map world ?us ! i) ?view ?proj
                          (0, 0, real_of_int (width c), real_of_int (height c))))) ^ 2
              + (fst (snd (map ?img ?us ! i))
                   - fst (snd (zeroZ (project G (map world ?us ! i) ?view ?proj
                          (0, 0, real_of_int (width c), real_of_int (height c)))))) ^ 2"
  have summand: "?g i = reprojectionError G c ?view ?proj (?us ! i)" if "i < length ?us" for i
    using that by (simp add: reprojectionError_def pixelOf_def zeroZ_def split: prod.splits)
  have "(\<Sum>i < length ?us. ?g i) = (\<Sum>i < length ?us. reprojectionError G c ?view ?proj (?us ! i))"
    by (rule sum.cong, rule refl, rule summand) simp
  also have "\<dots> = sum_list (map (reprojectionError G c ?view ?proj) ?us)"
    by (rule sum_nth_map)
  finally have total:
    "(\<Sum>i < length ?us. ?g i) = sum_list (map (reprojectionError G c ?view ?proj) ?us)" .
  have "cameraCalibration_f G (Some c) [fov', cx', cy', ex, ey, ez, yaw, pitch, roll]
          = double_div (\<Sum>i < length ?us. ?g i) (real (length ?us))"
    by (simp add: cameraCalibration_f_def collectPoints_filter fold_index_sum Let_def)
  also have "\<dots> = meanSquaredReprojectionError G c fov' cx' cy' (ex, ey, ez) (yaw, pitch, roll)"
    unfolding total by (simp add: meanSquaredReprojectionError_def double_div_def Let_def)
  finally show ?thesis .
qed

text \<open>The view, the projection and the projected point of the cameras \<open>cam1\<close>, \<open>cam2\<close>
  and \<open>cam6\<close>.\<close>

lemma lookAt_x_axis:
  "lookAt_real (0, 0, 0) (1, 0, 0) (0, 0, 1)
     = ((0, 0, - 1, 0), (- 1, 0, 0, 0), (0, 1, 0, 0), (0, 0, 0, 1))"
  by (simp add: lookAt_real_def normalize3_def subVec_def cross3_def dot3_def Let_def)

lemma frustumBounds_fov90:
  "near c = 1 \<Longrightarrow> far c = 3 \<Longrightarrow> width c = 512 \<Longrightarrow> height c = 512
     \<Longrightarrow> frustumBounds c 90 (1 / 2) (1 / 2) = (- 1, 1, - 1, 1, 1, 3)"
  by (simp add: frustumBounds_def tan_45 Let_def)

lemma projection_fov90:
  "near c = 1 \<Longrightarrow> far c = 3 \<Longrightarrow> width c = 512 \<Longrightarrow> height c = 512
     \<Longrightarrow> computeProjectionMatrix glm_real c 90 (1 / 2) (1 / 2)
           = ((1, 0, 0, 0), (0, 1, 0, 0), (0, 0, - 2, - 1), (0, 0, - 3, 0))"
  by (simp add: computeProjectionMatrix_def frustumBounds_fov90 glm_real_def frustum_real_def)

lemma project_on_axis:
  "project_real (2, 0, 0)
     ((0, 0, - 1, 0), (- 1, 0, 0, 0), (0, 1, 0, 0), (0, 0, 0, 1))
     ((1, 0, 0, 0), (0, 1, 0, 0), (0, 0, - 2, - 1), (0, 0, - 3, 0)) (0, 0, 512, 512)
   = (256, 256, 3 / 4)"
  by (simp add: project_real_def mulMat4Vec4_def)

text \<open>On \<open>cam2\<close> and the pose of this camera as parameters: the point that is set lies
  128 pixels from its projection, the point that is not set is left out.\<close>

theorem cameraCalibration_f_mean_witness:
  "cameraCalibration_f glm_real (Some cam2) [90, 1 / 2, 1 / 2, 0, 0, 0, 0, 0, 0] = Some 16384"
proof -
  have view: "lookAt_real (0, 0, 0)
       (xyz (mulMat4Vec4 (yawPitchRoll_real 0 0 0) (1, 0, 0, 0)))
       (xyz (mulMat4Vec4 (yawPitchRoll_real 0 0 0) (0, 0, 1, 0)))
     = ((0, 0, - 1, 0), (- 1, 0, 0, 0), (0, 1, 0, 0), (0, 0, 0, 1))"
    by (simp add: yawPitchRoll_real_def mulMat4Vec4_def xyz_def lookAt_x_axis)
  have proj: "computeProjectionMatrix glm_real cam2 90 (1 / 2) (1 / 2)
     = ((1, 0, 0, 0), (0, 1, 0, 0), (0, 0, - 2, - 1), (0, 0, - 3, 0))"
    by (rule projection_fov90) (simp_all add: cam2_def cam1_def)
  have "meanSquaredReprojectionError glm_real cam2 90 (1 / 2) (1 / 2) (0, 0, 0) (0, 0, 0)
      = Some 16384"
    unfolding meanSquaredReprojectionError_def prod.case proj
    by (simp add: cam2_def cam1_def reprojectionError_def pixelOf_def)
       (simp add: glm_real_def view project_on_axis zeroZ_def)
  then show ?thesis
    using cameraCalibration_f_mean [of glm_real cam2 90 "1 / 2" "1 / 2" 0 0 0 0 0 0] by simp
qed

subsection \<open>The calibration needs six points\<close>

lemma count_isSet:
  "fold (\<lambda>point n. if isSet point then n + 1 else n) ps (k :: int)
     = k + int (length (filter isSet ps))"
  by (induction ps arbitrary: k) simp_all

text \<open>
  Claim C2, as the code has it. \<open>doCalibration\<close> returns false if and only if fewer than
  six calibration points are set. It then leaves the camera as it was but for one line
  of the log, of priority \<open>WARNING\<close>: the minimizer is not called and the pose is
  unchanged. With six points or more it calls the minimizer on the objective function of
  the camera and stores the pose the minimizer returns: the field of view, the centre,
  the eye, and the target and the up vector rotated by the three angles. With exactly
  six points the solve is preceded by a line of the log that recommends at least seven
  points; the priority of that line is \<open>MESSAGE\<close>, not \<open>WARNING\<close>, and with more than six
  points the line is not there.
\<close>

theorem doCalibration_six:
  fixes c :: "'o Camera" and G :: "'m glm"
    and minimize :: "(real list \<Rightarrow> real option) \<Rightarrow> dvec3 \<Rightarrow> real \<times> real list"
  defines "n \<equiv> length (filter isSet (calibrationPoints c))"
  defines "r \<equiv> doCalibration G minimize c"
  defines "c3 \<equiv> c\<lparr>calibrationCalledOnce := True,
                   logged := logged c @
                     (if n = 6
                      then [(Some MESSAGE,
                             ''Camera::doCalibration - For better calibration results, use at least 7 points'',
                             [])]
                      else []) @
                     [(None, ''Camera::doCalibration - Starting calibration...'', [])]\<rparr>"
  shows "(fst r = False \<longleftrightarrow> n < 6)
       \<and> (n < 6 \<longrightarrow>
            r = (False, c\<lparr>logged := logged c @
                  [(Some WARNING, ''Camera::doCalibration - Calibration needs at least 6 points'', [])]\<rparr>))
       \<and> (6 \<le> n \<longrightarrow>
            (case minimize (cameraCalibration_f G (Some c3)) (eye c) of
               (minValue, sv) \<Rightarrow>
                 r = (True,
                      c3\<lparr>fov := sv ! 0, cx := sv ! 1, cy := sv ! 2,
                         eye := (sv ! 3, sv ! 4, sv ! 5),
                         target := normalizeVec G
                           (xyz (mulMatVec G (yawPitchRoll G (sv ! 6) (sv ! 7) (sv ! 8)) (1, 0, 0, 0))),
                         up := normalizeVec G
                           (xyz (mulMatVec G (yawPitchRoll G (sv ! 6) (sv ! 7) (sv ! 8)) (0, 0, 1, 0))),
                         logged := logged c3 @
                           [(None, ''Camera::doCalibration - Minumum found at (fov, cx, cy): '',
                             [sv ! 0, sv ! 1, sv ! 2]),
                            (None, ''Camera::doCalibration - Minimum value: '', [minValue])],
                         updatedParams := True\<rparr>)))"
proof (intro conjI impI)
  show "fst r = False \<longleftrightarrow> n < 6"
    unfolding r_def n_def
    by (auto simp: doCalibration_def count_isSet Let_def split: prod.splits)
  show "r = (False, c\<lparr>logged := logged c @
                  [(Some WARNING, ''Camera::doCalibration - Calibration needs at least 6 points'', [])]\<rparr>)"
    if "n < 6"
    using that unfolding r_def n_def
    by (simp add: doCalibration_def count_isSet Let_def)
next
  assume six: "6 \<le> n"
  show "case minimize (cameraCalibration_f G (Some c3)) (eye c) of
               (minValue, sv) \<Rightarrow>
                 r = (True,
                      c3\<lparr>fov := sv ! 0, cx := sv ! 1, cy := sv ! 2,
                         eye := (sv ! 3, sv ! 4, sv ! 5),
                         target := normalizeVec G
                           (xyz (mulMatVec G (yawPitchRoll G (sv ! 6) (sv ! 7) (sv ! 8)) (1, 0, 0, 0))),
                         up := normalizeVec G
                           (xyz (mulMatVec G (yawPitchRoll G (sv ! 6) (sv ! 7) (sv ! 8)) (0, 0, 1, 0))),
                         logged := logged c3 @
                           [(None, ''Camera::doCalibration - Minumum found at (fov, cx, cy): '',
                             [sv ! 0, sv ! 1, sv ! 2]),
                            (None, ''Camera::doCalibration - Minimum value: '', [minValue])],
                         updatedParams := True\<rparr>)"
  proof (cases "n = 6")
    case True
    then show ?thesis
      unfolding r_def n_def c3_def
      by (simp add: doCalibration_def count_isSet Let_def split: prod.splits)
  next
    case False
    with six have "6 < n" by simp
    with False show ?thesis
      unfolding r_def n_def c3_def
      by (simp add: doCalibration_def count_isSet Let_def split: prod.splits)
  qed
qed

text \<open>On \<open>cam1\<close>, with one point set, on \<open>cam6\<close>, with six, and on \<open>cam7\<close>, with seven.
  The minimizer returns a pose that differs from the one of these cameras in the field
  of view, the centre and the eye.\<close>

lemma normalize3_axes: "normalize3 (1, 0, 0) = (1, 0, 0)" "normalize3 (0, 0, 1) = (0, 0, 1)"
  by (simp_all add: normalize3_def dot3_def)

lemma rotated_axes:
  "xyz (mulMat4Vec4 (yawPitchRoll_real 0 0 0) (1, 0, 0, 0)) = (1, 0, 0)"
  "xyz (mulMat4Vec4 (yawPitchRoll_real 0 0 0) (0, 0, 1, 0)) = (0, 0, 1)"
  by (simp_all add: yawPitchRoll_real_def mulMat4Vec4_def xyz_def)

theorem doCalibration_six_witness:
  "doCalibration glm_real minimize1 cam1
     = (False, cam1\<lparr>logged :=
          [(Some WARNING, ''Camera::doCalibration - Calibration needs at least 6 points'', [])]\<rparr>)
   \<and> doCalibration glm_real minimize1 cam6
     = (True, cam6\<lparr>calibrationCalledOnce := True, updatedParams := True,
          fov := 60, cx := 1 / 4, cy := 3 / 4, eye := (1, 2, 3),
          target := (1, 0, 0), up := (0, 0, 1),
          logged :=
            [(Some MESSAGE,
              ''Camera::doCalibration - For better calibration results, use at least 7 points'', []),
             (None, ''Camera::doCalibration - Starting calibration...'', []),
             (None, ''Camera::doCalibration - Minumum found at (fov, cx, cy): '', [60, 1 / 4, 3 / 4]),
             (None, ''Camera::doCalibration - Minimum value: '', [1 / 4])]\<rparr>)
   \<and> doCalibration glm_real minimize1 cam7
     = (True, cam7\<lparr>calibrationCalledOnce := True, updatedParams := True,
          fov := 60, cx := 1 / 4, cy := 3 / 4, eye := (1, 2, 3),
          target := (1, 0, 0), up := (0, 0, 1),
          logged :=
            [(None, ''Camera::doCalibration - Starting calibration...'', []),
             (None, ''Camera::doCalibration - Minumum found at (fov, cx, cy): '', [60, 1 / 4, 3 / 4]),
             (None, ''Camera::doCalibration - Minimum value: '', [1 / 4])]\<rparr>)"
  using doCalibration_six [where c = cam1 and G = glm_real and minimize = minimize1]
    doCalibration_six [where c = cam6 and G = glm_real and minimize = minimize1]
    doCalibration_six [where c = cam7 and G = glm_real and minimize = minimize1]
  by (simp add: cam1_def cam6_def cam7_def minimize1_def glm_real_def rotated_axes normalize3_axes)

text \<open>
  Claim C2 as stated fails. With exactly six points set the calibration goes on to the
  solve, and the log of the camera has no line of priority \<open>WARNING\<close>: the line that
  recommends seven points is written with \<open>Log::MESSAGE\<close>.
\<close>

theorem doCalibration_six_no_warning:
  "length (filter isSet (calibrationPoints cam6)) = 6
   \<and> fst (doCalibration glm_real minimize1 cam6)
   \<and> filter (\<lambda>line. fst line = Some WARNING) (logged (snd (doCalibration glm_real minimize1 cam6))) = []
   \<and> filter (\<lambda>line. fst line = Some MESSAGE) (logged (snd (doCalibration glm_real minimize1 cam6)))
       = [(Some MESSAGE,
           ''Camera::doCalibration - For better calibration results, use at least 7 points'', [])]"
  by (simp add: doCalibration_def count_isSet Let_def cam6_def cam1_def minimize1_def)


subsection \<open>Removing a calibration point\<close>

lemma forObjects_alive:
  "None \<notin> set os \<Longrightarrow> forObjects f os = Inr (map (map_option f) os)"
proof (induction os)
  case Nil
  then show ?case by simp
next
  case (Cons ob os)
  then show ?case by (cases ob) simp_all
qed

lemma nearestPoint_fold:
  "nearestPoint G c sp
     = fold (keepNearer (screenDistance G c sp)) [0 ..< length (calibrationPoints c)] (DBL_MAX, - 1)"
proof -
  have "(\<lambda>i (minDist, index).
           let projectedPoint =
                 zeroZ (project G (world (calibrationPoints c ! i))
                   (lookAt G (eye c) (target c) (up c))
                   (computeProjectionMatrix G c (fov c) (cx c) (cy c))
                   (0, 0, real_of_int (width c), real_of_int (height c)))
           in if lengthVec G (subVec projectedPoint sp) < minDist
              then (lengthVec G (subVec projectedPoint sp), int i)
              else (minDist, index))
        = keepNearer (screenDistance G c sp)"
    by (intro ext) (simp add: keepNearer_def screenDistance_def Let_def split: prod.splits)
  then show ?thesis
    by (simp add: nearestPoint_def Let_def)
qed

text \<open>The loop keeps the first index of least distance, if some distance is below the
  start value \<open>M\<close>.\<close>

lemma fold_keepNearer:
  fixes d :: "nat \<Rightarrow> real"
  shows "(\<not> (\<exists>i < n. d i < M) \<longrightarrow> fold (keepNearer d) [0 ..< n] (M, - 1) = (M, - 1))
       \<and> ((\<exists>i < n. d i < M) \<longrightarrow>
            (\<exists>j < n. fold (keepNearer d) [0 ..< n] (M, - 1) = (d j, int j)
                \<and> d j < M \<and> (\<forall>i < n. d j \<le> d i) \<and> (\<forall>i < j. d j < d i)))"
proof (induction n)
  case 0
  then show ?case by simp
next
  case (Suc n)
  show ?case
  proof (cases "\<exists>i < n. d i < M")
    case False
    then have prev: "fold (keepNearer d) [0 ..< n] (M, - 1) = (M, - 1)"
      using Suc.IH by blast
    show ?thesis
    proof (cases "d n < M")
      case True
      have "fold (keepNearer d) [0 ..< Suc n] (M, - 1) = (d n, int n)"
        using True by (simp add: prev keepNearer_def)
      moreover have "\<forall>i < Suc n. d n \<le> d i"
        using False True by (auto simp: less_Suc_eq)
      moreover have "\<forall>i < n. d n < d i"
        using False True by (meson not_less order_less_le_trans)
      ultimately show ?thesis using True by blast
    next
      case no: False
      then have "\<not> (\<exists>i < Suc n. d i < M)"
        using False by (auto simp: less_Suc_eq)
      moreover have "fold (keepNearer d) [0 ..< Suc n] (M, - 1) = (M, - 1)"
        using no by (simp add: prev keepNearer_def)
      ultimately show ?thesis by blast
    qed
  next
    case True
    then obtain j where j: "j < n" "fold (keepNearer d) [0 ..< n] (M, - 1) = (d j, int j)"
        "d j < M" "\<forall>i < n. d j \<le> d i" "\<forall>i < j. d j < d i"
      using Suc.IH by blast
    have ex: "\<exists>i < Suc n. d i < M"
      using True less_Suc_eq by blast
    show ?thesis
    proof (cases "d n < d j")
      case True
      have "fold (keepNearer d) [0 ..< Suc n] (M, - 1) = (d n, int n)"
        using True by (simp add: j(2) keepNearer_def)
      moreover have "d n < M" using True j(3) by simp
      moreover have "\<forall>i < Suc n. d n \<le> d i"
        using True j(4) by (auto simp: less_Suc_eq intro: less_imp_le order_less_le_trans)
      moreover have "\<forall>i < n. d n < d i"
        using True j(4) by (auto intro: order_less_le_trans)
      ultimately show ?thesis by blast
    next
      case False
      have "fold (keepNearer d) [0 ..< Suc n] (M, - 1) = (d j, int j)"
        using False by (simp add: j(2) keepNearer_def)
      moreover have "\<forall>i < Suc n. d j \<le> d i"
        using False j(4) by (auto simp: less_Suc_eq)
      moreover have "j < Suc n" using j(1) by simp
      ultimately show ?thesis using j(3) j(5) ex by blast
    qed
  qed
qed

text \<open>
  The part of claim C3 that holds for the point given by two screen coordinates: with
  at least one calibration point, distances below \<open>DBL_MAX\<close> and no expired object, the
  call removes exactly one point, the first among those whose projection is nearest to
  the screen point. The flag \<open>unlessSet\<close> has no part in it.
\<close>

lemma removeCalibrationPoint_nearest:
  fixes c :: "'o Camera" and G :: "'m glm" and x y :: real
  defines "d \<equiv> screenDistance G c (x, y, 0)"
  assumes "calibrationPoints c \<noteq> []"
    and "\<forall>i < length (calibrationPoints c). d i < DBL_MAX"
    and "None \<notin> set (objects c)"
  shows "\<exists>j < length (calibrationPoints c).
           (\<forall>i < length (calibrationPoints c). d j \<le> d i) \<and> (\<forall>i < j. d j < d i)
           \<and> removeCalibrationPoint G objRemove [x, y] unlessSet c
               = Inr (c\<lparr>objects :=
                          map (map_option (objRemove (world (calibrationPoints c ! j)))) (objects c),
                        calibrationPoints := erase j (calibrationPoints c),
                        calibrationCalledOnce := False\<rparr>)"
proof -
  let ?n = "length (calibrationPoints c)"
  have "\<exists>i < ?n. d i < DBL_MAX"
    using assms(2,3) by (metis length_greater_0_conv)
  then obtain j where j: "j < ?n" "fold (keepNearer d) [0 ..< ?n] (DBL_MAX, - 1) = (d j, int j)"
      "\<forall>i < ?n. d j \<le> d i" "\<forall>i < j. d j < d i"
    using fold_keepNearer [of ?n d DBL_MAX] by blast
  have "nearestPoint G c (x, y, 0) = (d j, int j)"
    using j(2) by (simp add: nearestPoint_fold d_def)
  then have "removeCalibrationPoint G objRemove [x, y] unlessSet c
      = Inr (c\<lparr>objects :=
                 map (map_option (objRemove (world (calibrationPoints c ! j)))) (objects c),
               calibrationPoints := erase j (calibrationPoints c),
               calibrationCalledOnce := False\<rparr>)"
    using assms(4) by (simp add: removeCalibrationPoint_def forObjects_alive)
  with j show ?thesis by blast
qed

lemma removeCalibrationPoint_screen_ignores_unlessSet:
  "removeCalibrationPoint G objRemove [x, y] True c
     = removeCalibrationPoint G objRemove [x, y] False c"
  by (simp add: removeCalibrationPoint_def)

text \<open>The part that holds for the point given by its world coordinates: with
  \<open>unlessSet\<close> the points that are set all stay.\<close>

lemma filter_erase:
  "i < length xs \<Longrightarrow> \<not> P (xs ! i) \<Longrightarrow> filter P (erase i xs) = filter P xs"
proof -
  assume a: "i < length xs" "\<not> P (xs ! i)"
  have "filter P xs = filter P (take i xs @ xs ! i # drop (Suc i) xs)"
    using a(1) by (simp add: id_take_nth_drop [symmetric])
  then show ?thesis
    using a(2) by (simp add: erase_def)
qed

lemma removeWorld_keeps:
  "removeWorld objRemove w unlessSet i c = Inr c'
     \<Longrightarrow> filter (\<lambda>p. isSet p \<and> unlessSet) (calibrationPoints c')
           = filter (\<lambda>p. isSet p \<and> unlessSet) (calibrationPoints c)"
proof (induction objRemove w unlessSet i c rule: removeWorld.induct)
  case (1 objRemove w unlessSet i c)
  note run = \<open>removeWorld objRemove w unlessSet i c = Inr c'\<close>
  note eq = removeWorld.simps [of objRemove w unlessSet i c]
  show ?case
  proof (cases "i < length (calibrationPoints c)")
    case False
    with run show ?thesis by (simp add: eq)
  next
    case inside: True
    show ?thesis
    proof (cases "world (calibrationPoints c ! i) = w")
      case False
      with inside run have "removeWorld objRemove w unlessSet (i + 1) c = Inr c'"
        by (simp add: eq)
      with "1.IH"(3) inside False show ?thesis by simp
    next
      case found: True
      show ?thesis
      proof (cases "isSet (calibrationPoints c ! i) \<and> unlessSet")
        case True
        have "removeWorld objRemove w unlessSet i c = removeWorld objRemove w unlessSet (i + 1) c"
          using inside found True by (subst eq) simp
        with run have "removeWorld objRemove w unlessSet (i + 1) c = Inr c'"
          by simp
        with "1.IH"(1) inside found True show ?thesis by simp
      next
        case False
        with inside found run obtain os where
          os: "forObjects (objRemove w) (objects c) = Inr os"
          and rest: "removeWorld objRemove w unlessSet (i + 1)
                (c\<lparr>objects := os, calibrationPoints := erase i (calibrationPoints c),
                   selectedCalibrationPoint := - 1\<rparr>) = Inr c'"
          by (auto simp: eq split: sum.splits)
        have "filter (\<lambda>p. isSet p \<and> unlessSet) (calibrationPoints c')
            = filter (\<lambda>p. isSet p \<and> unlessSet) (erase i (calibrationPoints c))"
          using "1.IH"(2) [OF _ found False os rest] inside by simp
        with inside False show ?thesis by (simp add: filter_erase)
      qed
    qed
  qed
qed

lemma removeCalibrationPoint_world_keeps_set:
  assumes "removeCalibrationPoint G objRemove [x, y, z] True c = Inr c'"
  shows "filter isSet (calibrationPoints c') = filter isSet (calibrationPoints c)"
proof -
  from assms obtain c1 where c1: "removeWorld objRemove (x, y, z) True 0 c = Inr c1"
    and c': "c' = c1\<lparr>calibrationCalledOnce := False\<rparr>"
    by (auto simp: removeCalibrationPoint_def split: sum.splits)
  from removeWorld_keeps [OF c1] c' show ?thesis by simp
qed

lemma nearestPoint_cam1: "nearestPoint glm_real cam1 (256, 256, 0) = (0, 0)"
proof -
  have "nearestPoint glm_real cam1 (256, 256, 0)
     = (let projectedPoint = zeroZ (project glm_real (2, 0, 0)
            (lookAt glm_real (0, 0, 0) (1, 0, 0) (0, 0, 1))
            (computeProjectionMatrix glm_real cam1 90 (1 / 2) (1 / 2)) (0, 0, 512, 512))
        in if lengthVec glm_real (subVec projectedPoint (256, 256, 0)) < DBL_MAX
           then (lengthVec glm_real (subVec projectedPoint (256, 256, 0)), 0)
           else (DBL_MAX, - 1))"
    by (simp add: nearestPoint_def cam1_def Let_def)
  also have "\<dots> = (0, 0)"
    by (simp add: projection_fov90 cam1_def)
       (simp add: glm_real_def lookAt_x_axis project_on_axis zeroZ_def subVec_def length3_def
          dot3_def DBL_MAX_def)
  finally show ?thesis .
qed

text \<open>
  Claim C3. The camera \<open>cam1\<close> has one calibration point, which is set, and the call
  has \<open>unlessSet = true\<close>. Given the screen point \<open>(256, 256)\<close>, the call removes the
  point: the branch for two values never reads \<open>unlessSet\<close>. Given the world point
  \<open>(2, 0, 0)\<close>, the call keeps it, as the claim says for both.
\<close>

theorem removeCalibrationPoint_screen_removes_set_point:
  "isSet (calibrationPoints cam1 ! 0)
   \<and> removeCalibrationPoint glm_real (\<lambda>w ob. ob) [256, 256] True cam1
       = Inr (cam1\<lparr>calibrationPoints := [], calibrationCalledOnce := False\<rparr>)
   \<and> removeCalibrationPoint glm_real (\<lambda>w ob. ob) [2, 0, 0] True cam1
       = Inr (cam1\<lparr>calibrationCalledOnce := False\<rparr>)"
proof -
  have "removeCalibrationPoint glm_real (\<lambda>w ob. ob) [256, 256] True cam1
       = Inr (cam1\<lparr>calibrationPoints := [], calibrationCalledOnce := False\<rparr>)"
    by (simp add: removeCalibrationPoint_def nearestPoint_cam1) (simp add: cam1_def erase_def)
  moreover have "removeWorld (\<lambda>w ob. ob) (2, 0, 0) True 0 cam1 = Inr cam1"
    by (simp add: removeWorld.simps cam1_def)
  ultimately show ?thesis
    by (simp add: removeCalibrationPoint_def) (simp add: cam1_def)
qed

subsection \<open>The symmetric frustum\<close>

text \<open>
  Claim C7. With the principal point at \<open>cx = cy = 0.5\<close> the bounds of the frustum are
  symmetric: \<open>left = - right\<close> and \<open>bottom = - top\<close>, where \<open>top = near * tan (fov / 2)\<close>,
  the field of view in degrees, and \<open>right = top * width / height\<close>; the matrix is the
  frustum of the library for these bounds. The height of the image is not zero.
\<close>

theorem computeProjectionMatrix_symmetric:
  fixes c :: "'o Camera" and G :: "'m glm" and fov' :: real
  assumes "height c \<noteq> 0"
  defines "t \<equiv> near c * tan (fov' * pi / 360)"
  defines "r \<equiv> t * real_of_int (width c) / real_of_int (height c)"
  shows "frustumBounds c fov' (1 / 2) (1 / 2) = (- r, r, - t, t, near c, far c)
       \<and> computeProjectionMatrix G c fov' (1 / 2) (1 / 2)
           = frustum G (- r) r (- t) t (near c) (far c)"
  by (simp add: frustumBounds_def computeProjectionMatrix_def Let_def t_def r_def)

theorem computeProjectionMatrix_symmetric_witness:
  "frustumBounds cam1 90 (1 / 2) (1 / 2) = (- 1, 1, - 1, 1, 1, 3)
   \<and> computeProjectionMatrix glm_real cam1 90 (1 / 2) (1 / 2) = frustum_real (- 1) 1 (- 1) 1 1 3"
  using computeProjectionMatrix_symmetric [of cam1 90 glm_real]
  by (simp add: cam1_def tan_45 glm_real_def)

subsection \<open>The view of a camera whose target is its eye\<close>

text \<open>
  When the eye equals the target, \<open>computeViewMatrix\<close> first stores
  \<open>eye + (up.y, up.z, up.x)\<close> in the target and then calls \<open>lookAt\<close> with the eye, the new
  target and \<open>up\<close>; the new target differs from the eye exactly when \<open>up\<close> is not the
  zero vector. When the eye differs from the target the camera is left as it is.
\<close>

lemma computeViewMatrix_nudged_target:
  "(eye c = target c \<longrightarrow>
      (case (eye c, up c) of
         ((ex, ey, ez), (ux, uy, uz)) \<Rightarrow>
           computeViewMatrix G c
             = (lookAt G (eye c) (ex + uy, ey + uz, ez + ux) (up c),
                c\<lparr>target := (ex + uy, ey + uz, ez + ux)\<rparr>)
           \<and> ((ex + uy, ey + uz, ez + ux) \<noteq> eye c \<longleftrightarrow> up c \<noteq> (0, 0, 0))))
   \<and> (eye c \<noteq> target c \<longrightarrow> computeViewMatrix G c = (lookAt G (eye c) (target c) (up c), c))"
  by (auto simp: computeViewMatrix_def Let_def split: prod.splits)

text \<open>
  Claim C8 fails, and the code breaks its own comment, \<open>Eye and target can't be
  identical\<close>. The setters of \<open>eye\<close>, \<open>target\<close> and \<open>up\<close> store any three numbers. With
  the eye and the target at the origin and \<open>up\<close> the zero vector, the target stays where
  the eye is and \<open>lookAt\<close> receives the same point twice: the direction it normalizes
  has length zero. With \<open>up = (1, 1, 1)\<close> the target becomes \<open>(1, 1, 1)\<close>: the direction
  of the view is parallel to \<open>up\<close>, their cross product is the zero vector, and \<open>lookAt\<close>
  normalizes a vector of length zero again.
\<close>

theorem computeViewMatrix_identical_eye_target:
  "eye (cam1\<lparr>target := (0, 0, 0), up := (0, 0, 0)\<rparr>)
     = target (cam1\<lparr>target := (0, 0, 0), up := (0, 0, 0)\<rparr>)
   \<and> computeViewMatrix glm_real (cam1\<lparr>target := (0, 0, 0), up := (0, 0, 0)\<rparr>)
     = (lookAt glm_real (0, 0, 0) (0, 0, 0) (0, 0, 0),
        cam1\<lparr>target := (0, 0, 0), up := (0, 0, 0)\<rparr>)
   \<and> length3 (subVec (0, 0, 0) (0, 0, 0)) = 0
   \<and> computeViewMatrix glm_real (cam1\<lparr>target := (0, 0, 0), up := (1, 1, 1)\<rparr>)
     = (lookAt glm_real (0, 0, 0) (1, 1, 1) (1, 1, 1),
        cam1\<lparr>target := (1, 1, 1), up := (1, 1, 1)\<rparr>)
   \<and> cross3 (normalize3 (subVec (1, 1, 1) (0, 0, 0))) (1, 1, 1) = (0, 0, 0)"
  by (simp add: computeViewMatrix_def cam1_def length3_def dot3_def subVec_def cross3_def
      normalize3_def)


subsection \<open>No calibration point twice\<close>







end
